theory Spec2Isabelle
  imports Main "HOL-Library.Word"
begin

section \<open>Data model\<close>

text \<open>
  The authentication service of \<^verbatim>\<open>authentication/authentication.py\<close> is a Flask
  application. It keeps no state of its own: users live in a separate storage service that
  it reaches with \<^verbatim>\<open>requests\<close>, and the session lives in cookies held by the client.
  The embedding makes both explicit. Every handler takes the client's cookies and the
  state of the storage service and returns them, next to its response. An exception
  that leaves a handler (Flask turns it into a 500) is an \<open>Inl\<close> value.
\<close>

subsection \<open>JSON values and Python exceptions\<close>

text \<open>
  A decoded JSON document, as \<^verbatim>\<open>json.loads\<close> returns it. An object is the list of
  its members; the handlers write the members in the order the source names them, and
  members are only ever read by key.
\<close>

datatype json =
    JNull
  | JBool bool
  | JNum int
  | JStr string
  | JArr "json list"
  | JObj "(string \<times> json) list"

datatype error = ConnectionError | ValueError | KeyError | TypeError

text \<open>\<^verbatim>\<open>d[key]\<close> on a decoded document: only a dict can be indexed by a string.\<close>

fun getitem :: "json \<Rightarrow> string \<Rightarrow> error + json" where
  "getitem (JObj kvs) key = (case map_of kvs key of None \<Rightarrow> Inl KeyError | Some v \<Rightarrow> Inr v)"
| "getitem _ key = Inl TypeError"

text \<open>
  \<^verbatim>\<open>for details in d\<close>: a list yields its elements, a dict its keys, a string its
  characters; nothing else is iterable.
\<close>

fun py_iter :: "json \<Rightarrow> error + json list" where
  "py_iter (JArr xs) = Inr xs"
| "py_iter (JObj kvs) = Inr (map (\<lambda>kv. JStr (fst kv)) kvs)"
| "py_iter (JStr s) = Inr (map (\<lambda>ch. JStr [ch]) s)"
| "py_iter _ = Inl TypeError"

subsection \<open>HTTP status codes (\<^verbatim>\<open>requests.codes\<close>)\<close>

definition OK :: nat where "OK = 200"
definition CREATED :: nat where "CREATED = 201"
definition UNAUTHORIZED :: nat where "UNAUTHORIZED = 401"
definition NOT_FOUND :: nat where "NOT_FOUND = 404"
definition CONFLICT :: nat where "CONFLICT = 409"

subsection \<open>Users\<close>

text \<open>\<^verbatim>\<open>class User(UserMixin)\<close>: an email address and a password hash.\<close>

record user =
  email :: string
  password_hash :: string

definition get_id :: "user \<Rightarrow> string" where
  "get_id u = email u"

text \<open>
  \<^verbatim>\<open>User(email=details['email'], password_hash=details['password_hash'])\<close> on a decoded
  storage record. The two subscripts raise as Python does. The model's \<open>user\<close> holds
  strings, so a member that is not a string is rejected here; Python would carry it
  along and raise where it is first used as a string.
\<close>

definition User :: "json \<Rightarrow> error + user" where
  "User details =
     (case getitem details ''email'' of
        Inl x \<Rightarrow> Inl x
      | Inr e \<Rightarrow>
         (case getitem details ''password_hash'' of
            Inl x \<Rightarrow> Inl x
          | Inr h \<Rightarrow>
             (case (e, h) of
                (JStr es, JStr hs) \<Rightarrow> Inr \<lparr>email = es, password_hash = hs\<rparr>
              | _ \<Rightarrow> Inl TypeError)))"

subsection \<open>The storage service, as the handlers see it\<close>

text \<open>
  A call to the storage service: the method, the URL and, for a POST, the document sent
  as \<^verbatim>\<open>data=json.dumps(d)\<close>. The URL is written relative to \<^verbatim>\<open>STORAGE_URL\<close>, which
  only names the host, and is the text the source builds:
  \<^item> \<open>GET (''/users/'' @ e)\<close>:
    \<^verbatim>\<open>requests.get(urljoin(STORAGE_URL, 'users/{email}').format(email=e))\<close>
  \<^item> \<open>GET ''/users''\<close>: \<^verbatim>\<open>requests.get(urljoin(STORAGE_URL, '/users'))\<close>
  \<^item> \<open>POST ''/users'' d\<close>: \<^verbatim>\<open>requests.post(urljoin(STORAGE_URL, '/users'), data=json.dumps(d))\<close>
  \<^item> \<open>DELETE (''/users/'' @ e)\<close>:
    \<^verbatim>\<open>requests.delete(urljoin(STORAGE_URL, '/users/{email}'.format(email=e)))\<close>

  \<^verbatim>\<open>format\<close> pastes the email into the URL as it is: nothing is escaped, so a \<open>#\<close>,
  \<open>?\<close> or \<open>/\<close> in the email is read as URL syntax by whoever receives the URL. In the
  DELETE the join comes after the paste and returns the text shown, except that it
  drops an empty query or fragment and, in Python 3, resolves an email \<open>.\<close> or \<open>..\<close>
  as a dot segment. Every call carries the header \<^verbatim>\<open>Content-Type: application/json\<close>.
\<close>

datatype request =
    GET string
  | POST string json
  | DELETE string

text \<open>
  A \<^verbatim>\<open>requests.Response\<close>: its status code, and what \<^verbatim>\<open>json.loads(response.text)\<close>
  gives (\<open>None\<close> when the text is not JSON and \<^verbatim>\<open>json.loads\<close> raises ValueError).
\<close>

record response =
  status_code :: nat
  text_json :: "json option"

definition json_loads :: "response \<Rightarrow> error + json" where
  "json_loads r = (case text_json r of None \<Rightarrow> Inl ValueError | Some j \<Rightarrow> Inr j)"

subsection \<open>The application's environment\<close>

text \<open>
  What the module binds at import time and never changes:
  \<^item> \<open>SECRET_KEY\<close>: \<^verbatim>\<open>app.config['SECRET_KEY']\<close>;
  \<^item> \<open>hmac_sha512 key msg\<close>: the HMAC-SHA512 tag that Flask-Login's
    \<^verbatim>\<open>make_secure_token\<close> computes, a 512-bit value;
  \<^item> \<open>generate_password_hash salt password\<close> and \<open>check_password_hash pw_hash password\<close>:
    Flask-Bcrypt. The salt that bcrypt draws at random is an argument. Both may raise:
    hashing refuses some passwords (Flask-Bcrypt raises ValueError on an empty one),
    checking refuses a malformed hash;
  \<^item> \<open>requests\<close>: the storage service behind \<^verbatim>\<open>STORAGE_URL\<close>, a transition on its state
    \<open>'s\<close>. A call that raises (the service cannot be reached) is \<open>Inl\<close>.
  The primitives are parameters: the theorems hold for every choice of them.
\<close>

record 's app =
  SECRET_KEY :: string
  hmac_sha512 :: "string \<Rightarrow> string \<Rightarrow> 512 word"
  generate_password_hash :: "string \<Rightarrow> string \<Rightarrow> error + string"
  check_password_hash :: "string \<Rightarrow> string \<Rightarrow> error + bool"
  requests :: "request \<Rightarrow> 's \<Rightarrow> (error + response) \<times> 's"

section \<open>Token deriver\<close>

text \<open>
  \<^verbatim>\<open>hexdigest()\<close> of a 64-byte tag: 128 lower-case hexadecimal digits, the most
  significant first.
\<close>

definition hexdigit :: "nat \<Rightarrow> char" where
  "hexdigit n = char_of (if n < 10 then 48 + n else 87 + n)"

definition nibble :: "512 word \<Rightarrow> nat \<Rightarrow> nat" where
  "nibble w j = unat (take_bit 4 (drop_bit (4 * j) w))"

definition hexdigest :: "512 word \<Rightarrow> string" where
  "hexdigest w = map (\<lambda>i. hexdigit (nibble w (127 - i))) [0..<128]"

text \<open>\<^verbatim>\<open>b'\0'.join(l)\<close>: the arguments, a NUL byte between them.\<close>

fun join_nul :: "string list \<Rightarrow> string" where
  "join_nul [] = []"
| "join_nul [x] = x"
| "join_nul (x # y # ys) = x @ CHR 0x00 # join_nul (y # ys)"

text \<open>
  Flask-Login's \<^verbatim>\<open>make_secure_token(*args)\<close>: the hexadecimal HMAC-SHA512 tag of the
  joined arguments under the application's secret key.
\<close>

definition make_secure_token :: "'s app \<Rightarrow> string list \<Rightarrow> string" where
  "make_secure_token app args = hexdigest (hmac_sha512 app (SECRET_KEY app) (join_nul args))"

text \<open>\<^verbatim>\<open>User.get_auth_token\<close>.\<close>

definition get_auth_token :: "'s app \<Rightarrow> user \<Rightarrow> string" where
  "get_auth_token app u = make_secure_token app [email u, password_hash u]"

section \<open>Session manager\<close>

subsection \<open>The two loaders\<close>

text \<open>
  \<^verbatim>\<open>load_user_from_id\<close>: one GET; a user only when the status is 200, \<open>None\<close>
  otherwise (the function falls off its end).
\<close>

definition load_user_from_id :: "'s app \<Rightarrow> string \<Rightarrow> 's \<Rightarrow> (error + user option) \<times> 's" where
  "load_user_from_id app uid s =
     (case requests app (GET (''/users/'' @ uid)) s of
        (Inl x, s') \<Rightarrow> (Inl x, s')
      | (Inr r, s') \<Rightarrow>
          if status_code r = OK then
            (case json_loads r of
               Inl x \<Rightarrow> (Inl x, s')
             | Inr details \<Rightarrow>
                 (case User details of
                    Inl x \<Rightarrow> (Inl x, s')
                  | Inr u \<Rightarrow> (Inr (Some u), s')))
          else (Inr None, s'))"

text \<open>
  The loop of \<^verbatim>\<open>load_user_from_token\<close> over the decoded records: build the user,
  derive its token, return the user when the token is the presented one.
\<close>

fun scan_users :: "'s app \<Rightarrow> string \<Rightarrow> json list \<Rightarrow> error + user option" where
  "scan_users app auth_token [] = Inr None"
| "scan_users app auth_token (details # rest) =
     (case User details of
        Inl x \<Rightarrow> Inl x
      | Inr u \<Rightarrow>
          if get_auth_token app u = auth_token then Inr (Some u)
          else scan_users app auth_token rest)"

text \<open>\<^verbatim>\<open>load_user_from_token\<close>: one GET of all users; the status code is not looked at.\<close>

definition load_user_from_token :: "'s app \<Rightarrow> string \<Rightarrow> 's \<Rightarrow> (error + user option) \<times> 's" where
  "load_user_from_token app auth_token s =
     (case requests app (GET ''/users'') s of
        (Inl x, s') \<Rightarrow> (Inl x, s')
      | (Inr r, s') \<Rightarrow>
          (case json_loads r of
             Inl x \<Rightarrow> (Inl x, s')
           | Inr j \<Rightarrow>
               (case py_iter j of
                  Inl x \<Rightarrow> (Inl x, s')
                | Inr ds \<Rightarrow> (scan_users app auth_token ds, s'))))"

subsection \<open>The client's cookies and Flask-Login\<close>

text \<open>
  What the client holds between requests: the identity in Flask's session cookie
  (\<^verbatim>\<open>session['user_id']\<close>) and the \<^verbatim>\<open>remember_token\<close> cookie.
\<close>

record client =
  session_user_id :: "string option"
  remember_token :: "string option"

text \<open>
  Flask-Login's \<^verbatim>\<open>login_user(user, remember=True)\<close>: the session takes the user's id,
  and since a token loader is registered the remember cookie set on the response is
  \<^verbatim>\<open>user.get_auth_token()\<close>.
\<close>

definition login_user :: "'s app \<Rightarrow> user \<Rightarrow> client \<Rightarrow> client" where
  "login_user app u c = c\<lparr>session_user_id := Some (get_id u),
                          remember_token := Some (get_auth_token app u)\<rparr>"

text \<open>
  Flask-Login's \<^verbatim>\<open>logout_user()\<close>: the identity is popped from the session and a
  remember cookie the request carried is deleted.
\<close>

definition logout_user :: "client \<Rightarrow> client" where
  "logout_user c = c\<lparr>session_user_id := None, remember_token := None\<rparr>"

text \<open>
  Flask-Login's \<^verbatim>\<open>current_user\<close>, resolved on first use in a request. With an identity
  in the session the user loader decides (for a vanished user the request is anonymous
  and the session keeps its identity); without one, a remember cookie is handed to the
  token loader, and a user it finds becomes the session's identity. The module configures neither session protection
  (the default, \<^verbatim>\<open>basic\<close>, never removes the identity) nor \<^verbatim>\<open>LOGIN_DISABLED\<close>.
\<close>

definition current_user :: "'s app \<Rightarrow> client \<Rightarrow> 's \<Rightarrow> (error + user option) \<times> client \<times> 's" where
  "current_user app c s =
     (case session_user_id c of
        Some uid \<Rightarrow>
          (case load_user_from_id app uid s of
             (Inl x, s') \<Rightarrow> (Inl x, c, s')
           | (Inr None, s') \<Rightarrow> (Inr None, c, s')
           | (Inr (Some u), s') \<Rightarrow> (Inr (Some u), c, s'))
      | None \<Rightarrow>
          (case remember_token c of
             None \<Rightarrow> (Inr None, c, s)
           | Some tok \<Rightarrow>
               (case load_user_from_token app tok s of
                  (Inl x, s') \<Rightarrow> (Inl x, c, s')
                | (Inr None, s') \<Rightarrow> (Inr None, c, s')
                | (Inr (Some u), s') \<Rightarrow>
                    (Inr (Some u), c\<lparr>session_user_id := Some (get_id u)\<rparr>, s'))))"

section \<open>Request handlers\<close>

text \<open>
  A handler's response: \<^verbatim>\<open>jsonify(...)\<close> with a status code, or \<^verbatim>\<open>abort(code)\<close>,
  whose body is Werkzeug's error page and not JSON. The handlers below are the view
  functions after \<^verbatim>\<open>@consumes\<close> and \<^verbatim>\<open>@jsonschema.validate\<close> have let the request
  through: \<open>addr\<close> and \<open>password\<close> are \<^verbatim>\<open>request.json['email']\<close> and
  \<^verbatim>\<open>request.json['password']\<close>.
\<close>

datatype flask_response = Response json nat | Abort nat

fun status_of :: "flask_response \<Rightarrow> nat" where
  "status_of (Response j n) = n"
| "status_of (Abort n) = n"

type_synonym 's outcome = "(error + flask_response) \<times> client \<times> 's"

definition user_does_not_exist :: "string \<Rightarrow> json" where
  "user_does_not_exist addr = JObj
     [(''title'', JStr ''The requested user does not exist.''),
      (''detail'', JStr (''No user exists with the email '' @ [CHR 0x22] @ addr @ [CHR 0x22]))]"

definition incorrect_password :: "string \<Rightarrow> json" where
  "incorrect_password addr = JObj
     [(''title'', JStr ''An incorrect password was provided.''),
      (''detail'', JStr (''The password for the user '' @ [CHR 0x22] @ addr @ [CHR 0x22] @
                         '' does not match the password provided.''))]"

definition already_a_user :: "string \<Rightarrow> json" where
  "already_a_user addr = JObj
     [(''title'', JStr ''There is already a user with the given email address.''),
      (''detail'', JStr (''A user already exists with the email '' @ [CHR 0x22] @ addr @ [CHR 0x22]))]"

definition credentials :: "string \<Rightarrow> string \<Rightarrow> json" where
  "credentials addr password = JObj [(''email'', JStr addr), (''password'', JStr password)]"

text \<open>\<^verbatim>\<open>POST /login\<close>.\<close>

definition login :: "'s app \<Rightarrow> string \<Rightarrow> string \<Rightarrow> client \<Rightarrow> 's \<Rightarrow> 's outcome" where
  "login app addr password c s =
     (case load_user_from_id app addr s of
        (Inl x, s') \<Rightarrow> (Inl x, c, s')
      | (Inr None, s') \<Rightarrow> (Inr (Response (user_does_not_exist addr) NOT_FOUND), c, s')
      | (Inr (Some u), s') \<Rightarrow>
          (case check_password_hash app (password_hash u) password of
             Inl x \<Rightarrow> (Inl x, c, s')
           | Inr False \<Rightarrow> (Inr (Response (incorrect_password addr) UNAUTHORIZED), c, s')
           | Inr True \<Rightarrow>
               (Inr (Response (credentials addr password) OK), login_user app u c, s')))"

text \<open>
  \<^verbatim>\<open>POST /logout\<close>, under \<^verbatim>\<open>@login_required\<close>: without an authenticated current user
  Flask-Login answers \<^verbatim>\<open>abort(401)\<close> and the view function does not run.
\<close>

definition logout :: "'s app \<Rightarrow> client \<Rightarrow> 's \<Rightarrow> 's outcome" where
  "logout app c s =
     (case current_user app c s of
        (Inl x, c', s') \<Rightarrow> (Inl x, c', s')
      | (Inr None, c', s') \<Rightarrow> (Inr (Abort UNAUTHORIZED), c', s')
      | (Inr (Some u), c', s') \<Rightarrow> (Inr (Response (JObj []) OK), logout_user c', s'))"

text \<open>\<^verbatim>\<open>DELETE /users/<email>\<close>. The response of the storage call is dropped.\<close>

definition specific_user_route :: "'s app \<Rightarrow> string \<Rightarrow> client \<Rightarrow> 's \<Rightarrow> 's outcome" where
  "specific_user_route app addr c s =
     (case load_user_from_id app addr s of
        (Inl x, s1) \<Rightarrow> (Inl x, c, s1)
      | (Inr None, s1) \<Rightarrow> (Inr (Response (user_does_not_exist addr) NOT_FOUND), c, s1)
      | (Inr (Some u), s1) \<Rightarrow>
          (case requests app (DELETE (''/users/'' @ addr)) s1 of
             (Inl x, s2) \<Rightarrow> (Inl x, c, s2)
           | (Inr r, s2) \<Rightarrow> (Inr (Response (JObj [(''email'', JStr (email u))]) OK), c, s2)))"

text \<open>
  \<^verbatim>\<open>POST /signup\<close>. \<open>salt\<close> is the salt bcrypt draws for this request. When hashing
  raises, nothing is posted. The response of the storage call is dropped.
\<close>

definition signup :: "'s app \<Rightarrow> string \<Rightarrow> string \<Rightarrow> string \<Rightarrow> client \<Rightarrow> 's \<Rightarrow> 's outcome" where
  "signup app salt addr password c s =
     (case load_user_from_id app addr s of
        (Inl x, s1) \<Rightarrow> (Inl x, c, s1)
      | (Inr (Some u), s1) \<Rightarrow> (Inr (Response (already_a_user addr) CONFLICT), c, s1)
      | (Inr None, s1) \<Rightarrow>
          (case generate_password_hash app salt password of
             Inl x \<Rightarrow> (Inl x, c, s1)
           | Inr h \<Rightarrow>
               (case requests app
                       (POST ''/users'' (JObj [(''email'', JStr addr),
                                               (''password_hash'', JStr h)])) s1 of
                  (Inl x, s2) \<Rightarrow> (Inl x, c, s2)
                | (Inr r, s2) \<Rightarrow>
                    (Inr (Response (credentials addr password) CREATED), c, s2))))"

text \<open>\<^verbatim>\<open>GET /status\<close>.\<close>

definition status :: "'s app \<Rightarrow> client \<Rightarrow> 's \<Rightarrow> 's outcome" where
  "status app c s =
     (case current_user app c s of
        (Inl x, c', s') \<Rightarrow> (Inl x, c', s')
      | (Inr None, c', s') \<Rightarrow> (Inr (Response (JObj [(''is_authenticated'', JBool False)]) OK), c', s')
      | (Inr (Some u), c', s') \<Rightarrow>
          (Inr (Response (JObj [(''is_authenticated'', JBool True),
                                (''email'', JStr (email u))]) OK), c', s'))"

section \<open>The storage service and a sample deployment\<close>

text \<open>
  The state of a storage service: its (email, password hash) records, in order, and the
  JSON document of one record.
\<close>

type_synonym store = "(string \<times> string) list"

definition user_json :: "string \<Rightarrow> string \<Rightarrow> json" where
  "user_json e h = JObj [(''email'', JStr e), (''password_hash'', JStr h)]"

text \<open>
  Modelled from the spec: the storage service is an HTTP service whose package is not
  among the sources; this is what its router makes of a URL. The fragment (from the
  first \<open>#\<close>) is never sent and the query (from the first \<open>?\<close>) is not part of the
  path, as with \<^verbatim>\<open>request.path_url\<close> in the \<^verbatim>\<open>request_callback\<close> of the tests; the
  path \<open>/users\<close> is the collection, \<open>/users/<email>\<close> with a non-empty segment free of
  \<open>/\<close> is one record, and any other path matches no route. Percent-escapes and dot
  segments are left as they are.
\<close>

datatype resource = Collection | Record string

definition url_path :: "string \<Rightarrow> string" where
  "url_path url = takeWhile (\<lambda>ch. ch \<noteq> CHR ''?'' \<and> ch \<noteq> CHR ''#'') url"

definition route :: "string \<Rightarrow> resource option" where
  "route url =
     (let p = url_path url in
      if p = ''/users'' then Some Collection
      else if take 7 p = ''/users/'' \<and> drop 7 p \<noteq> [] \<and> CHR ''/'' \<notin> set (drop 7 p)
      then Some (Record (drop 7 p))
      else None)"

definition no_such_resource :: response where
  "no_such_resource = \<lparr>status_code = NOT_FOUND, text_json = Some (JObj [])\<rparr>"

text \<open>
  Modelled from the spec: the storage service. The repository's \<^verbatim>\<open>storage\<close> package
  is not among the sources, so the service follows the contract of the spec's Storage
  Client: \<open>getUserByEmail(email) -> User | NotFound\<close>, \<open>listUsers() -> sequence of User\<close>,
  \<open>createUser(email, passwordHash) -> ok | Conflict\<close>, \<open>deleteUser(email) -> ok | NotFound\<close>,
  with at most one user per email. The record a request names is the one its URL
  routes to.
\<close>

fun storage :: "request \<Rightarrow> store \<Rightarrow> (error + response) \<times> store" where
  "storage (GET url) st =
     (case route url of
        None \<Rightarrow> (Inr no_such_resource, st)
      | Some Collection \<Rightarrow>
          (Inr \<lparr>status_code = OK,
                text_json = Some (JArr (map (\<lambda>eh. user_json (fst eh) (snd eh)) st))\<rparr>, st)
      | Some (Record e) \<Rightarrow>
          (case map_of st e of
             None \<Rightarrow> (Inr no_such_resource, st)
           | Some h \<Rightarrow> (Inr \<lparr>status_code = OK, text_json = Some (user_json e h)\<rparr>, st)))"
| "storage (POST url d) st =
     (case route url of
        Some Collection \<Rightarrow>
          (case User d of
             Inl x \<Rightarrow> (Inr \<lparr>status_code = 400, text_json = Some (JObj [])\<rparr>, st)
           | Inr u \<Rightarrow>
               (case map_of st (email u) of
                  Some h \<Rightarrow> (Inr \<lparr>status_code = CONFLICT, text_json = Some (JObj [])\<rparr>, st)
                | None \<Rightarrow>
                    (Inr \<lparr>status_code = CREATED,
                          text_json = Some (user_json (email u) (password_hash u))\<rparr>,
                     st @ [(email u, password_hash u)])))
      | _ \<Rightarrow> (Inr no_such_resource, st))"
| "storage (DELETE url) st =
     (case route url of
        Some (Record e) \<Rightarrow>
          (case map_of st e of
             None \<Rightarrow> (Inr no_such_resource, st)
           | Some h \<Rightarrow>
               (Inr \<lparr>status_code = OK, text_json = Some (JObj [])\<rparr>,
                filter (\<lambda>eh. fst eh \<noteq> e) st))
      | _ \<Rightarrow> (Inr no_such_resource, st))"

text \<open>
  The same service shared with a second client, whose own request \<open>rival\<close> reaches the
  service right after each GET: the interleaving of two concurrent requests.
\<close>

definition racing_storage :: "request \<Rightarrow> request \<Rightarrow> store \<Rightarrow> (error + response) \<times> store" where
  "racing_storage rival req st =
     (case req of
        GET url \<Rightarrow> (fst (storage req st), snd (storage rival (snd (storage req st))))
      | _ \<Rightarrow> storage req st)"

text \<open>
  A sample deployment on which the theorems are instantiated. Its primitives are
  stand-ins with the interface of the real ones (they are not HMAC or bcrypt); like
  Flask-Bcrypt, the hasher raises ValueError on an empty password.
\<close>

definition sample_mac :: "string \<Rightarrow> string \<Rightarrow> 512 word" where
  "sample_mac key msg = of_nat (length key + length msg)"

definition sample_generate :: "string \<Rightarrow> string \<Rightarrow> error + string" where
  "sample_generate salt password =
     (if password = [] then Inl ValueError else Inr (salt @ rev password))"

definition sample_check :: "string \<Rightarrow> string \<Rightarrow> error + bool" where
  "sample_check pw_hash password = Inr (take (length password) (rev pw_hash) = password)"

definition sample_app :: "store app" where
  "sample_app = \<lparr>SECRET_KEY = ''secret'', hmac_sha512 = sample_mac,
                  generate_password_hash = sample_generate,
                  check_password_hash = sample_check, requests = storage\<rparr>"

definition racing_app :: "request \<Rightarrow> store app" where
  "racing_app rival = sample_app\<lparr>requests := racing_storage rival\<rparr>"

definition anonymous_client :: client where
  "anonymous_client = \<lparr>session_user_id = None, remember_token = None\<rparr>"

text \<open>
  A deployment under observation: its storage state is paired with a log, and every
  storage call is appended to the log, in order.
\<close>

definition recording :: "'s app \<Rightarrow> (request list \<times> 's) app" where
  "recording app =
     \<lparr>SECRET_KEY = SECRET_KEY app, hmac_sha512 = hmac_sha512 app,
      generate_password_hash = generate_password_hash app,
      check_password_hash = check_password_hash app,
      requests = (\<lambda>req ls.
         (fst (requests app req (snd ls)),
          (fst ls @ [req], snd (requests app req (snd ls)))))\<rparr>"


section \<open>Resolution by remember-token, in the words of the specification\<close>

text \<open>
  Scan the users in list order, derive each one's token, and return the first user whose
  derived token equals the presented token; no match resolves to no user.
\<close>

definition spec_resolve_by_token :: "'s app \<Rightarrow> string \<Rightarrow> user list \<Rightarrow> user option" where
  "spec_resolve_by_token app auth_token users =
     find (\<lambda>u. get_auth_token app u = auth_token) users"

section \<open>Auxiliary facts\<close>

lemmas codes_defs = OK_def CREATED_def UNAUTHORIZED_def NOT_FOUND_def CONFLICT_def

lemmas handler_defs = load_user_from_id_def json_loads_def User_def codes_defs

lemmas sample_defs = sample_app_def racing_app_def racing_storage_def sample_mac_def
  sample_generate_def sample_check_def anonymous_client_def user_json_def
  route_def url_path_def no_such_resource_def

subsection \<open>The hexadecimal digest loses nothing of the tag\<close>

lemma hexdigit_inj: "n < 16 \<Longrightarrow> m < 16 \<Longrightarrow> hexdigit n = hexdigit m \<Longrightarrow> n = m"
proof -
  assume n: "n < 16" and m: "m < 16" and eq: "hexdigit n = hexdigit m"
  have "of_char (hexdigit n) = (of_char (hexdigit m) :: nat)" using eq by simp
  then show "n = m" using n m
    by (simp add: hexdigit_def split: if_splits)
qed

lemma nibble_less: "nibble w j < 16"
proof -
  have "take_bit 4 (unat (drop_bit (4 * j) w)) < 2 ^ 4"
    by (rule take_bit_nat_less_exp)
  then show ?thesis by (simp add: nibble_def unsigned_take_bit_eq)
qed

lemma nibble_bit: "k < 4 \<Longrightarrow> bit (nibble w j) k = bit w (4 * j + k)"
  by (simp add: nibble_def bit_unsigned_iff bit_take_bit_iff bit_drop_bit_eq)

lemma hexdigest_inj: "hexdigest v = hexdigest w \<Longrightarrow> v = w"
proof -
  assume eq: "hexdigest v = hexdigest w"
  have nib: "nibble v j = nibble w j" if "j < 128" for j
  proof -
    from that have i: "127 - j < 128" and j: "127 - (127 - j) = j" by auto
    from eq have "map (\<lambda>i. hexdigit (nibble v (127 - i))) [0..<128] ! (127 - j)
                = map (\<lambda>i. hexdigit (nibble w (127 - i))) [0..<128] ! (127 - j)"
      by (simp add: hexdigest_def)
    with i j have "hexdigit (nibble v j) = hexdigit (nibble w j)"
      by simp
    then show ?thesis by (rule hexdigit_inj [OF nibble_less nibble_less])
  qed
  show "v = w"
  proof (rule bit_word_eqI)
    fix n assume "n < LENGTH(512)"
    then have n: "n div 4 < 128" and k: "n mod 4 < 4" by auto
    have "bit v n = bit (nibble v (n div 4)) (n mod 4)"
      using nibble_bit [OF k, of v "n div 4"] by simp
    also have "\<dots> = bit (nibble w (n div 4)) (n mod 4)"
      by (simp add: nib [OF n])
    also have "\<dots> = bit w n"
      using nibble_bit [OF k, of w "n div 4"] by simp
    finally show "bit v n = bit w n" .
  qed
qed

lemma hexdigest_eq_iff: "hexdigest v = hexdigest w \<longleftrightarrow> v = w"
  by (auto dest: hexdigest_inj)

text \<open>Two tokens are equal exactly when the MAC gives their messages the same tag.\<close>

lemma get_auth_token_eq_iff:
  "get_auth_token app u = get_auth_token app u' \<longleftrightarrow>
     hmac_sha512 app (SECRET_KEY app) (email u @ CHR 0x00 # password_hash u) =
     hmac_sha512 app (SECRET_KEY app) (email u' @ CHR 0x00 # password_hash u')"
  by (simp add: get_auth_token_def make_secure_token_def hexdigest_eq_iff)

subsection \<open>The loaders\<close>



lemma scan_users_find:
  "map User ds = map Inr users \<Longrightarrow>
   scan_users app tok ds = Inr (find (\<lambda>u. get_auth_token app u = tok) users)"
proof (induction ds arbitrary: users)
  case Nil
  then show ?case by simp
next
  case (Cons d ds)
  then obtain u us where users: "users = u # us" and d: "User d = Inr u"
    and rest: "map User ds = map Inr us"
    by (cases users) auto
  from Cons.IH [OF rest] d users show ?case by simp
qed

subsection \<open>The storage service\<close>

lemma User_user_json: "User (user_json e h) = Inr \<lparr>email = e, password_hash = h\<rparr>"
  by (simp add: User_def user_json_def)

lemma sample_lookup_alice:
  "load_user_from_id sample_app ''alice@example.com'' [(''alice@example.com'', ''saltterces'')]
     = (Inr (Some \<lparr>email = ''alice@example.com'', password_hash = ''saltterces''\<rparr>),
        [(''alice@example.com'', ''saltterces'')])"
  by (simp add: sample_defs handler_defs)

subsection \<open>Signup when hashing raises\<close>

text \<open>
  When the lookup finds no user and \<^verbatim>\<open>generate_password_hash\<close> raises, the exception
  leaves \<^verbatim>\<open>signup\<close> before anything is posted: the storage state is the one the lookup
  left. On the sample deployment this is the empty password.
\<close>

lemma signup_hash_error:
  "load_user_from_id app addr s = (Inr None, s1) \<Longrightarrow>
   generate_password_hash app salt password = Inl x \<Longrightarrow>
   signup app salt addr password c s = (Inl x, c, s1)"
  by (simp add: signup_def)

lemma signup_empty_password:
  "signup (recording sample_app) ''salt'' ''alice@example.com'' [] anonymous_client ([], [])
     = (Inl ValueError, anonymous_client, ([GET ''/users/alice@example.com''], []))"
  by (simp add: signup_def recording_def sample_defs handler_defs)

subsection \<open>The scenario of the repository's tests, on the sample deployment\<close>

text \<open>
  Sign up, log in, ask for the status, log out, ask again, log out again: the answers
  are those the tests of the repository expect (201, 200, authenticated, 200,
  not authenticated, 401).
\<close>

lemma end_to_end_scenario:
  "signup sample_app ''salt'' ''alice@example.com'' ''secret'' anonymous_client []
     = (Inr (Response (credentials ''alice@example.com'' ''secret'') 201), anonymous_client,
        [(''alice@example.com'', ''saltterces'')])
   \<and> fst (login sample_app ''alice@example.com'' ''secret'' anonymous_client
            [(''alice@example.com'', ''saltterces'')])
     = Inr (Response (credentials ''alice@example.com'' ''secret'') 200)
   \<and> fst (status sample_app
            (fst (snd (login sample_app ''alice@example.com'' ''secret'' anonymous_client
                         [(''alice@example.com'', ''saltterces'')])))
            [(''alice@example.com'', ''saltterces'')])
     = Inr (Response (JObj [(''is_authenticated'', JBool True),
                            (''email'', JStr ''alice@example.com'')]) 200)
   \<and> logout sample_app
        (fst (snd (login sample_app ''alice@example.com'' ''secret'' anonymous_client
                     [(''alice@example.com'', ''saltterces'')])))
        [(''alice@example.com'', ''saltterces'')]
     = (Inr (Response (JObj []) 200), anonymous_client, [(''alice@example.com'', ''saltterces'')])
   \<and> fst (status sample_app anonymous_client [(''alice@example.com'', ''saltterces'')])
     = Inr (Response (JObj [(''is_authenticated'', JBool False)]) 200)
   \<and> fst (logout sample_app anonymous_client [(''alice@example.com'', ''saltterces'')])
     = Inr (Abort 401)"
  by (simp add: signup_def login_def logout_def status_def current_user_def login_user_def
      logout_user_def get_id_def credentials_def sample_lookup_alice sample_defs handler_defs)

text \<open>A returning client that holds only the remember cookie resolves to its user.\<close>

lemma remembered_client_resolves:
  "current_user sample_app
      \<lparr>session_user_id = None,
       remember_token = Some (get_auth_token sample_app
          \<lparr>email = ''alice@example.com'', password_hash = ''saltterces''\<rparr>)\<rparr>
      [(''alice@example.com'', ''saltterces'')]
   = (Inr (Some \<lparr>email = ''alice@example.com'', password_hash = ''saltterces''\<rparr>),
      \<lparr>session_user_id = Some ''alice@example.com'',
       remember_token = Some (get_auth_token sample_app
          \<lparr>email = ''alice@example.com'', password_hash = ''saltterces''\<rparr>)\<rparr>,
      [(''alice@example.com'', ''saltterces'')])"
  by (simp add: current_user_def load_user_from_token_def json_loads_def get_id_def
      sample_app_def route_def url_path_def User_user_json)

section \<open>The claims\<close>

subsection \<open>Signup\<close>

text \<open>
  C1 (as amended). When the lookup that opens \<^verbatim>\<open>signup\<close> finds no user, the password
  is hashed and the create call to the storage service returns a response \<open>r\<close>, be it
  409 Conflict or any other, the handler answers 201 Created with \<open>{email, password}\<close>:
  the response of \<^verbatim>\<open>requests.post\<close> is never read, and only the handler's own lookup
  leads to Conflict.
\<close>

theorem signup_created_whatever_storage_answers:
  assumes "load_user_from_id app addr s = (Inr None, s1)"
    and "generate_password_hash app salt password = Inr h"
    and "requests app (POST ''/users'' (JObj [(''email'', JStr addr),
                                              (''password_hash'', JStr h)])) s1 = (Inr r, s2)"
  shows "signup app salt addr password c s =
           (Inr (Response (JObj [(''email'', JStr addr), (''password'', JStr password)]) 201), c, s2)"
  using assms by (simp add: signup_def credentials_def codes_defs)

theorem signup_created_whatever_storage_answers_witness:
  "signup (racing_app (POST ''/users'' (user_json ''bob@example.com'' ''rival'')))
        ''salt'' ''bob@example.com'' ''hunter2'' anonymous_client []
      = (Inr (Response (JObj [(''email'', JStr ''bob@example.com''),
                              (''password'', JStr ''hunter2'')]) 201),
         anonymous_client, [(''bob@example.com'', ''rival'')])"
proof -
  let ?app = "racing_app (POST ''/users'' (user_json ''bob@example.com'' ''rival''))"
  have look: "load_user_from_id ?app ''bob@example.com'' [] = (Inr None, [(''bob@example.com'', ''rival'')])"
    by (simp add: sample_defs handler_defs)
  have hash: "generate_password_hash ?app ''salt'' ''hunter2'' = Inr ''salt2retnuh''"
    by (simp add: sample_defs)
  have post: "requests ?app (POST ''/users'' (JObj [(''email'', JStr ''bob@example.com''),
         (''password_hash'', JStr ''salt2retnuh'')]))
         [(''bob@example.com'', ''rival'')]
       = (Inr \<lparr>status_code = CONFLICT, text_json = Some (JObj [])\<rparr>, [(''bob@example.com'', ''rival'')])"
    by (simp add: sample_defs handler_defs)
  show ?thesis
    by (rule signup_created_whatever_storage_answers [OF look hash post])
qed

text \<open>
  C1 as stated fails. Two clients sign up \<^verbatim>\<open>alice@example.com\<close> at once on an empty
  store: the lookup finds no user, the rival's record lands, the storage service answers
  the post with 409 Conflict, and the handler still answers 201 Created.
\<close>

theorem signup_race_counterexample:
  "load_user_from_id (racing_app (POST ''/users'' (user_json ''alice@example.com'' ''rival'')))
      ''alice@example.com'' [] = (Inr None, [(''alice@example.com'', ''rival'')])
   \<and> generate_password_hash (racing_app (POST ''/users'' (user_json ''alice@example.com'' ''rival'')))
        ''salt'' ''secret'' = Inr ''saltterces''
   \<and> fst (requests (racing_app (POST ''/users'' (user_json ''alice@example.com'' ''rival'')))
        (POST ''/users'' (JObj [(''email'', JStr ''alice@example.com''),
                                (''password_hash'', JStr ''saltterces'')]))
        [(''alice@example.com'', ''rival'')])
      = Inr \<lparr>status_code = 409, text_json = Some (JObj [])\<rparr>
   \<and> signup (racing_app (POST ''/users'' (user_json ''alice@example.com'' ''rival'')))
        ''salt'' ''alice@example.com'' ''secret'' anonymous_client []
      = (Inr (Response (JObj [(''email'', JStr ''alice@example.com''),
                              (''password'', JStr ''secret'')]) 201),
         anonymous_client, [(''alice@example.com'', ''rival'')])"
  by (simp add: signup_def credentials_def sample_defs handler_defs)



text \<open>
  C7, at an email with a \<open>#\<close>. On an empty store \<^verbatim>\<open>signup\<close> creates the user
  \<^verbatim>\<open>bob#1@example.com\<close> and answers 201 Created; the record holds the hash, not the
  password. The lookup of that email afterwards sends \<^verbatim>\<open>GET /users/bob#1@example.com\<close>,
  which reaches the service as \<^verbatim>\<open>/users/bob\<close>, and finds no user.
\<close>

theorem signup_then_lookup_hash_sign:
  "signup sample_app ''salt'' ''bob#1@example.com'' ''secret'' anonymous_client []
     = (Inr (Response (JObj [(''email'', JStr ''bob#1@example.com''),
                             (''password'', JStr ''secret'')]) 201),
        anonymous_client, [(''bob#1@example.com'', ''saltterces'')])
   \<and> load_user_from_id sample_app ''bob#1@example.com'' [(''bob#1@example.com'', ''saltterces'')]
     = (Inr None, [(''bob#1@example.com'', ''saltterces'')])"
  by (simp add: signup_def credentials_def sample_defs handler_defs)

subsection \<open>Login\<close>





subsection \<open>Logout\<close>

text \<open>
  C4. For every client: when the session resolves to no user, \<^verbatim>\<open>logout\<close> answers 401
  (Flask-Login's \<^verbatim>\<open>abort(401)\<close>); when it resolves to a user, \<^verbatim>\<open>logout\<close> answers 200
  with the empty object and leaves the client without identity and without remember
  cookie. That client resolves to no user on every storage state, so a second logout
  answers 401.
\<close>

theorem logout_requires_authentication:
  "(fst (current_user app c s) = Inr None \<longrightarrow> fst (logout app c s) = Inr (Abort 401))
   \<and> (current_user app c s = (Inr (Some u), c', s') \<longrightarrow>
        logout app c s = (Inr (Response (JObj []) 200), anonymous_client, s')
        \<and> (\<forall>s2. current_user app anonymous_client s2 = (Inr None, anonymous_client, s2))
        \<and> (\<forall>s2. logout app anonymous_client s2 = (Inr (Abort 401), anonymous_client, s2)))"
  by (auto simp add: logout_def logout_user_def anonymous_client_def current_user_def codes_defs
      split: prod.splits sum.splits option.splits)

theorem logout_requires_authentication_witness:
  "fst (logout sample_app anonymous_client []) = Inr (Abort 401)
   \<and> logout sample_app
        \<lparr>session_user_id = Some ''alice@example.com'', remember_token = None\<rparr>
        [(''alice@example.com'', ''saltterces'')]
      = (Inr (Response (JObj []) 200), anonymous_client, [(''alice@example.com'', ''saltterces'')])
   \<and> logout sample_app anonymous_client [(''alice@example.com'', ''saltterces'')]
      = (Inr (Abort 401), anonymous_client, [(''alice@example.com'', ''saltterces'')])"
proof -
  let ?st = "[(''alice@example.com'', ''saltterces'')]"
  let ?c = "\<lparr>session_user_id = Some ''alice@example.com'', remember_token = None\<rparr>"
  have anon: "fst (current_user sample_app anonymous_client []) = Inr None"
    by (simp add: current_user_def anonymous_client_def)
  have auth: "current_user sample_app ?c ?st
      = (Inr (Some \<lparr>email = ''alice@example.com'', password_hash = ''saltterces''\<rparr>), ?c, ?st)"
    by (simp add: current_user_def sample_lookup_alice)
  from logout_requires_authentication [where app = sample_app and c = anonymous_client and s = "[]"] anon
  have first: "fst (logout sample_app anonymous_client []) = Inr (Abort 401)"
    by blast
  from logout_requires_authentication [where app = sample_app and c = ?c and s = ?st
      and c' = ?c and s' = ?st] auth
  have twice: "logout sample_app ?c ?st = (Inr (Response (JObj []) 200), anonymous_client, ?st)
     \<and> logout sample_app anonymous_client ?st = (Inr (Abort 401), anonymous_client, ?st)"
    by blast
  from first twice show ?thesis by simp
qed

subsection \<open>Resolution by remember-token\<close>

text \<open>
  C5. For every presented token and every list of users the storage service returns
  (each record a well-formed user), \<^verbatim>\<open>load_user_from_token\<close> is the specification's
  scan: the first user, in list order, whose derived token is the presented one, and no
  user when no derived token matches.
\<close>

theorem load_user_from_token_first_match:
  assumes "requests app (GET ''/users'') s = (Inr r, s')"
    and "text_json r = Some (JArr ds)"
    and "map User ds = map Inr users"
  shows "load_user_from_token app tok s = (Inr (spec_resolve_by_token app tok users), s')
       \<and> ((\<forall>u \<in> set users. get_auth_token app u \<noteq> tok) \<longrightarrow>
             load_user_from_token app tok s = (Inr None, s'))"
proof -
  have scan: "load_user_from_token app tok s = (Inr (spec_resolve_by_token app tok users), s')"
    using assms
    by (simp add: load_user_from_token_def json_loads_def spec_resolve_by_token_def scan_users_find)
  have "spec_resolve_by_token app tok users = None" if "\<forall>u \<in> set users. get_auth_token app u \<noteq> tok"
    using that by (simp add: spec_resolve_by_token_def find_None_iff)
  with scan show ?thesis by simp
qed

theorem load_user_from_token_first_match_witness:
  "load_user_from_token sample_app
       (get_auth_token sample_app \<lparr>email = ''bob@example.com'', password_hash = ''pepperdrowssap''\<rparr>)
       [(''alice@example.com'', ''saltterces''), (''bob@example.com'', ''pepperdrowssap'')]
     = (Inr (Some \<lparr>email = ''bob@example.com'', password_hash = ''pepperdrowssap''\<rparr>),
        [(''alice@example.com'', ''saltterces''), (''bob@example.com'', ''pepperdrowssap'')])
   \<and> load_user_from_token sample_app ''fake'' [(''alice@example.com'', ''saltterces'')]
     = (Inr None, [(''alice@example.com'', ''saltterces'')])"
proof -
  let ?alice = "\<lparr>email = ''alice@example.com'', password_hash = ''saltterces''\<rparr>"
  let ?bob = "\<lparr>email = ''bob@example.com'', password_hash = ''pepperdrowssap''\<rparr>"
  let ?st = "[(''alice@example.com'', ''saltterces''), (''bob@example.com'', ''pepperdrowssap'')]"
  let ?ds = "[user_json ''alice@example.com'' ''saltterces'',
              user_json ''bob@example.com'' ''pepperdrowssap'']"
  have get: "requests sample_app (GET ''/users'') ?st
      = (Inr \<lparr>status_code = OK, text_json = Some (JArr ?ds)\<rparr>, ?st)"
    by (simp add: sample_defs)
  have users: "map User ?ds = map Inr [?alice, ?bob]"
    by (simp add: User_user_json)
  have differ: "get_auth_token sample_app ?alice \<noteq> get_auth_token sample_app ?bob"
    by (simp add: get_auth_token_def make_secure_token_def hexdigest_eq_iff sample_app_def sample_mac_def)
  have found: "spec_resolve_by_token sample_app (get_auth_token sample_app ?bob) [?alice, ?bob] = Some ?bob"
    using differ by (simp add: spec_resolve_by_token_def)
  have second: "load_user_from_token sample_app (get_auth_token sample_app ?bob) ?st = (Inr (Some ?bob), ?st)"
    using load_user_from_token_first_match [OF get _ users, of "get_auth_token sample_app ?bob"] found
    by simp
  let ?st1 = "[(''alice@example.com'', ''saltterces'')]"
  have get1: "requests sample_app (GET ''/users'') ?st1
     = (Inr \<lparr>status_code = OK, text_json = Some (JArr [user_json ''alice@example.com'' ''saltterces''])\<rparr>, ?st1)"
    by (simp add: sample_defs)
  have users1: "map User [user_json ''alice@example.com'' ''saltterces''] = map Inr [?alice]"
    by (simp add: User_user_json)
  have "length (get_auth_token sample_app ?alice) = 128"
    by (simp add: get_auth_token_def make_secure_token_def hexdigest_def)
  then have "get_auth_token sample_app ?alice \<noteq> ''fake''" by auto
  then have none: "\<forall>u \<in> set [?alice]. get_auth_token sample_app u \<noteq> ''fake''"
    by simp
  have decoded: "text_json \<lparr>status_code = OK,
        text_json = Some (JArr [user_json ''alice@example.com'' ''saltterces''])\<rparr>
      = Some (JArr [user_json ''alice@example.com'' ''saltterces''])"
    by simp
  have fake: "load_user_from_token sample_app ''fake'' ?st1 = (Inr None, ?st1)"
    using load_user_from_token_first_match [OF get1 decoded users1, of "''fake''"] none
    by blast
  from second fake show ?thesis by simp
qed

subsection \<open>Deleting a user\<close>

text \<open>
  C8, at an email with a \<open>#\<close>. The store holds \<^verbatim>\<open>alice@example.com\<close> and no user
  \<^verbatim>\<open>alice@example.com#x\<close>. \<^verbatim>\<open>DELETE /users/<email>\<close> for the latter looks up and deletes
  \<^verbatim>\<open>/users/alice@example.com#x\<close>, which reaches the service as
  \<^verbatim>\<open>/users/alice@example.com\<close>: the answer is 200 with alice's email, not 404, and
  alice's record is gone.
\<close>

theorem delete_hash_sign_deletes_other_user:
  "map_of [(''alice@example.com'', ''saltterces'')] ''alice@example.com#x'' = None
   \<and> specific_user_route sample_app ''alice@example.com#x'' anonymous_client
        [(''alice@example.com'', ''saltterces'')]
     = (Inr (Response (JObj [(''email'', JStr ''alice@example.com'')]) 200), anonymous_client, [])"
  by (simp add: specific_user_route_def sample_defs handler_defs)

text \<open>
  C10. When the lookup finds a user, \<^verbatim>\<open>DELETE /users/<email>\<close> answers 200 with the
  user's email whatever response \<open>r\<close> the storage service gives to the delete call, for
  every status code and body: the response of \<^verbatim>\<open>requests.delete\<close> is never read.
\<close>

theorem delete_ignores_storage_answer:
  assumes "load_user_from_id app addr s = (Inr (Some u), s1)"
    and "requests app (DELETE (''/users/'' @ addr)) s1 = (Inr r, s2)"
  shows "specific_user_route app addr c s =
           (Inr (Response (JObj [(''email'', JStr (email u))]) 200), c, s2)"
  using assms by (simp add: specific_user_route_def codes_defs)

theorem delete_ignores_storage_answer_witness:
  "fst (requests (racing_app (DELETE ''/users/alice@example.com'')) (DELETE ''/users/alice@example.com'') [])
     = Inr \<lparr>status_code = 404, text_json = Some (JObj [])\<rparr>
   \<and> specific_user_route (racing_app (DELETE ''/users/alice@example.com'')) ''alice@example.com''
        anonymous_client [(''alice@example.com'', ''saltterces'')]
     = (Inr (Response (JObj [(''email'', JStr ''alice@example.com'')]) 200), anonymous_client, [])"
proof -
  let ?app = "racing_app (DELETE ''/users/alice@example.com'')"
  have look: "load_user_from_id ?app ''alice@example.com'' [(''alice@example.com'', ''saltterces'')]
      = (Inr (Some \<lparr>email = ''alice@example.com'', password_hash = ''saltterces''\<rparr>), [])"
    by (simp add: sample_defs handler_defs)
  have del: "requests ?app (DELETE (''/users/'' @ ''alice@example.com'')) []
      = (Inr \<lparr>status_code = 404, text_json = Some (JObj [])\<rparr>, [])"
    by (simp add: sample_defs handler_defs)
  show ?thesis
    using delete_ignores_storage_answer [OF look del, of anonymous_client] del by simp
qed

end
